theory Spec2Isabelle
  imports Main "HOL-Library.FSet" "HOL-Library.Multiset"
begin

section \<open>Data model (schemas/models)\<close>

text \<open>
  Modelled from the spec: the declarations of \<^verbatim>\<open>schemas/models\<close> (\<open>ChannelType\<close>,
  \<open>ChannelAccessLevel\<close>, \<open>ChannelAccessRule\<close>, \<open>Channel\<close>, \<open>MessageContent\<close>, \<open>Message\<close>,
  \<open>MessageDeliveryStatus\<close>), which the services import and which are not among the
  sources. Field names and enum members are those the services and their tests use.

  Timestamps: the services store \<^verbatim>\<open>new Date().toISOString()\<close> and compare
  \<^verbatim>\<open>new Date(x).getTime()\<close>; an ISO string is identified with the millisecond count it
  denotes. The values drawn from \<^verbatim>\<open>uuid()\<close> and from the clock are passed to the
  operations as arguments.
\<close>

type_synonym UUID = string
type_synonym timestamp = nat

datatype ChannelType = PUBLIC | PRIVATE | BROADCAST | DIRECT

text \<open>Modelled from the spec: the access levels \<^verbatim>\<open>'read' | 'write' | 'admin'\<close> of
  \<^verbatim>\<open>ChannelAccessLevelValue\<close>. The value \<^verbatim>\<open>null\<close> of \<^verbatim>\<open>defaultAccess\<close> is \<open>None\<close>.\<close>

datatype ChannelAccessLevel = READ | WRITE | ADMIN

text \<open>The principal types \<^verbatim>\<open>'all'\<close> and \<^verbatim>\<open>'agent'\<close>; \<open>PrincipalRole\<close> stands for every other
  value, which \<open>matchRule\<close> (role matching is left to do there) matches with nobody.\<close>

datatype PrincipalType = PrincipalAll | PrincipalAgent | PrincipalRole

record ChannelAccessRule =
  principal :: string
  principalType :: PrincipalType
  level :: ChannelAccessLevel

record ChannelMetadata =
  displayName :: string
  topic :: "string option"
  isArchived :: bool
  allowExternal :: bool

record Channel =
  channel_id :: UUID
  channel_name :: string
  channel_projectId :: UUID
  channel_type :: ChannelType
  accessRules :: "ChannelAccessRule list"
  defaultAccess :: "ChannelAccessLevel option"
  metadata :: ChannelMetadata
  createdBy :: UUID
  createdAt :: timestamp
  memberCount :: nat

datatype MentionType = MentionAll | MentionAgent

record Mention =
  mention_type :: MentionType
  startIndex :: nat
  mention_length :: nat

record MessageContent =
  content_text :: string
  data :: "string option"
  mentions :: "Mention list"
  attachments :: "string list"

datatype TargetType = TargetChannel | TargetAgent | TargetBroadcast

datatype MessageDeliveryStatus = Sent | Delivered | Read

text \<open>
  The signature is \<^verbatim>\<open>HMAC-SHA256(signingKey, JSON.stringify({id, senderId, content, sentAt}))\<close>
  in base64. It is modelled symbolically, as the pair of the key and the signed fields:
  two signatures are equal exactly when key and payload are (no collisions).
\<close>

record SignedPayload =
  payload_id :: string
  payload_senderId :: string
  payload_content :: MessageContent
  payload_sentAt :: timestamp

datatype Signature = HmacSha256 string SignedPayload

record Message =
  msg_id :: string
  msg_projectId :: UUID
  targetId :: string
  targetType :: TargetType
  senderId :: UUID
  msg_type :: string
  content :: MessageContent
  threadId :: "string option"
  correlationId :: "string option"
  signature :: Signature
  deliveryStatus :: MessageDeliveryStatus
  sentAt :: timestamp
  editedAt :: "timestamp option"
  deletedAt :: "timestamp option"

datatype RelayEventAction = Edited string | Deleted

text \<open>The calls the services make on the relay client.\<close>

datatype RelayCall =
    SubscribeToChannel UUID string
  | UnsubscribeFromChannel UUID string
  | BroadcastToChannel string Message
  | SendToAgent string Message
  | Broadcast Message
  | EmitRelayEvent UUID string string RelayEventAction

section \<open>ChannelService\<close>

record PartialChannelMetadata =
  partial_displayName :: "string option"
  partial_topic :: "string option option"
  partial_isArchived :: "bool option"
  partial_allowExternal :: "bool option"

record ChannelCreateInput =
  input_name :: string
  input_type :: "ChannelType option"
  input_topic :: "string option"
  input_metadata :: "PartialChannelMetadata option"

text \<open>Object spread \<^verbatim>\<open>{ ...base, ...updates }\<close>: a field present in \<open>updates\<close> wins.\<close>

definition spreadMetadata :: "ChannelMetadata \<Rightarrow> PartialChannelMetadata option \<Rightarrow> ChannelMetadata" where
  "spreadMetadata base updates =
     (case updates of
        None \<Rightarrow> base
      | Some u \<Rightarrow>
          \<lparr>displayName = (case partial_displayName u of None \<Rightarrow> displayName base | Some v \<Rightarrow> v),
           topic = (case partial_topic u of None \<Rightarrow> topic base | Some v \<Rightarrow> v),
           isArchived = (case partial_isArchived u of None \<Rightarrow> isArchived base | Some v \<Rightarrow> v),
           allowExternal = (case partial_allowExternal u of None \<Rightarrow> allowExternal base | Some v \<Rightarrow> v)\<rparr>)"

text \<open>
  The service's three maps, its project id, and the optional relay client: \<open>None\<close> when
  the service was built without one, otherwise the calls made on it so far. The writes
  to durable storage and to analytics are fire-and-forget and leave the maps alone; they
  are not part of the state.
\<close>

record ChannelService =
  channels :: "string \<rightharpoonup> Channel"
  nameIndex :: "string \<rightharpoonup> string"
  memberships :: "string \<rightharpoonup> UUID fset"
  cs_projectId :: UUID
  cs_relayClient :: "RelayCall list option"

datatype error = AlreadyExists string | PermissionDenied string

definition new_ChannelService :: "UUID \<Rightarrow> RelayCall list option \<Rightarrow> ChannelService" where
  "new_ChannelService pid relay =
     \<lparr>channels = Map.empty, nameIndex = Map.empty, memberships = Map.empty,
      cs_projectId = pid, cs_relayClient = relay\<rparr>"

text \<open>\<^verbatim>\<open>loadFromStorage\<close>: every stored channel is put into \<open>channels\<close> and \<open>nameIndex\<close>;
  \<open>memberships\<close> is not touched. The argument is the result of
  \<^verbatim>\<open>storage.getAllChannels()\<close>, \<open>None\<close> when there is no storage or the call fails.\<close>

fun loadChannels :: "Channel list \<Rightarrow> ChannelService \<Rightarrow> ChannelService" where
  "loadChannels [] s = s"
| "loadChannels (c # cs) s =
     loadChannels cs
       (s\<lparr>channels := (channels s)(channel_id c \<mapsto> c),
          nameIndex := (nameIndex s)(channel_name c \<mapsto> channel_id c)\<rparr>)"

definition loadFromStorage :: "Channel list option \<Rightarrow> ChannelService \<Rightarrow> ChannelService" where
  "loadFromStorage stored s = (case stored of None \<Rightarrow> s | Some cs \<Rightarrow> loadChannels cs s)"

fun createDefaultAccessRules :: "ChannelType \<Rightarrow> ChannelAccessRule list" where
  "createDefaultAccessRules PUBLIC =
     [\<lparr>principal = ''*'', principalType = PrincipalAll, level = WRITE\<rparr>]"
| "createDefaultAccessRules PRIVATE = []"
| "createDefaultAccessRules BROADCAST =
     [\<lparr>principal = ''*'', principalType = PrincipalAll, level = READ\<rparr>]"
| "createDefaultAccessRules DIRECT = []"

definition orPublic :: "ChannelType option \<Rightarrow> ChannelType" where
  "orPublic t = (case t of None \<Rightarrow> PUBLIC | Some ty \<Rightarrow> ty)"

text \<open>\<^verbatim>\<open>create(input, createdBy)\<close>; \<open>uid\<close> is the value of \<^verbatim>\<open>uuid()\<close>, \<open>now\<close> the clock.\<close>

definition create ::
  "string \<Rightarrow> timestamp \<Rightarrow> ChannelCreateInput \<Rightarrow> UUID \<Rightarrow> ChannelService
     \<Rightarrow> (error + Channel) \<times> ChannelService" where
  "create uid now input creator s =
     (if nameIndex s (input_name input) \<noteq> None
      then (Inl (AlreadyExists (input_name input)), s)
      else
        let cid = ''ch-'' @ uid;
            channel = \<lparr>channel_id = cid,
                       channel_name = input_name input,
                       channel_projectId = cs_projectId s,
                       channel_type = orPublic (input_type input),
                       accessRules = createDefaultAccessRules (orPublic (input_type input)),
                       defaultAccess = (if input_type input = Some PRIVATE then None else Some READ),
                       metadata = spreadMetadata
                         \<lparr>displayName = input_name input, topic = input_topic input,
                          isArchived = False, allowExternal = False\<rparr>
                         (input_metadata input),
                       createdBy = creator,
                       createdAt = now,
                       memberCount = 0\<rparr>
        in (Inr channel,
            s\<lparr>channels := (channels s)(cid \<mapsto> channel),
              nameIndex := (nameIndex s)(input_name input \<mapsto> cid),
              memberships := (memberships s)(cid \<mapsto> {||})\<rparr>))"

text \<open>\<^verbatim>\<open>createDefaultChannels\<close> and \<^verbatim>\<open>initializeChannels\<close>: the two system channels are
  created only when their names are not taken; \<open>uid1\<close> and \<open>uid2\<close> are the values of
  \<^verbatim>\<open>uuid()\<close> for them.\<close>

definition createDefaultChannels ::
  "string \<Rightarrow> string \<Rightarrow> timestamp \<Rightarrow> ChannelService \<Rightarrow> ChannelService" where
  "createDefaultChannels uid1 uid2 now s =
     (let s1 = (if nameIndex s ''general'' = None
                then snd (create uid1 now
                            \<lparr>input_name = ''general'', input_type = Some PUBLIC,
                             input_topic = Some ''General discussion for all agents'',
                             input_metadata = None\<rparr>
                            ''system'' s)
                else s)
      in if nameIndex s1 ''announcements'' = None
         then snd (create uid2 now
                     \<lparr>input_name = ''announcements'', input_type = Some BROADCAST,
                      input_topic = Some ''System-wide announcements'',
                      input_metadata = None\<rparr>
                     ''system'' s1)
         else s1)"

definition initializeChannels ::
  "Channel list option \<Rightarrow> string \<Rightarrow> string \<Rightarrow> timestamp \<Rightarrow> ChannelService \<Rightarrow> ChannelService" where
  "initializeChannels stored uid1 uid2 now s =
     createDefaultChannels uid1 uid2 now (loadFromStorage stored s)"

definition matchRule :: "ChannelAccessRule \<Rightarrow> UUID \<Rightarrow> bool" where
  "matchRule rule agentId =
     (if principalType rule = PrincipalAll then True
      else if principalType rule = PrincipalAgent \<and> principal rule = agentId then True
      else False)"

definition levels :: "ChannelAccessLevel list" where
  "levels = [READ, WRITE, ADMIN]"

fun indexOf :: "'a list \<Rightarrow> 'a \<Rightarrow> int" where
  "indexOf [] x = -1"
| "indexOf (y # ys) x =
     (if y = x then 0 else (let i = indexOf ys x in if i < 0 then -1 else i + 1))"

definition accessLevelSatisfies :: "ChannelAccessLevel \<Rightarrow> ChannelAccessLevel \<Rightarrow> bool" where
  "accessLevelSatisfies actual required = (indexOf levels actual \<ge> indexOf levels required)"

text \<open>The loop over the rules: \<open>Some b\<close> when it returns \<open>b\<close> at a matching rule,
  \<open>None\<close> when it runs to the end.\<close>

fun checkRules :: "ChannelAccessRule list \<Rightarrow> UUID \<Rightarrow> ChannelAccessLevel \<Rightarrow> bool option" where
  "checkRules [] agentId requiredLevel = None"
| "checkRules (rule # rules) agentId requiredLevel =
     (if matchRule rule agentId then Some (accessLevelSatisfies (level rule) requiredLevel)
      else checkRules rules agentId requiredLevel)"

definition checkAccess :: "ChannelService \<Rightarrow> string \<Rightarrow> UUID \<Rightarrow> ChannelAccessLevel \<Rightarrow> bool" where
  "checkAccess s channelId agentId requiredLevel =
     (case channels s channelId of
        None \<Rightarrow> False
      | Some channel \<Rightarrow>
          (case checkRules (accessRules channel) agentId requiredLevel of
             Some b \<Rightarrow> b
           | None \<Rightarrow>
               (case defaultAccess channel of
                  Some d \<Rightarrow> accessLevelSatisfies d requiredLevel
                | None \<Rightarrow> False)))"

definition relayCall :: "RelayCall \<Rightarrow> RelayCall list option \<Rightarrow> RelayCall list option" where
  "relayCall c relay = map_option (\<lambda>calls. calls @ [c]) relay"

text \<open>\<^verbatim>\<open>join(channelId, agentId)\<close>: \<open>Inr\<close> is the boolean returned, \<open>Inl\<close> the error thrown.\<close>

definition join :: "string \<Rightarrow> UUID \<Rightarrow> ChannelService \<Rightarrow> (error + bool) \<times> ChannelService" where
  "join channelId agentId s =
     (case channels s channelId of
        None \<Rightarrow> (Inr False, s)
      | Some channel \<Rightarrow>
          if \<not> checkAccess s channelId agentId READ
          then (Inl (PermissionDenied ''cannot join channel''), s)
          else
            (case memberships s channelId of
               None \<Rightarrow> (Inr False, s)
             | Some members \<Rightarrow>
                 if agentId |\<notin>| members
                 then
                   let members' = finsert agentId members
                   in (Inr True,
                       s\<lparr>memberships := (memberships s)(channelId \<mapsto> members'),
                         channels := (channels s)
                           (channelId \<mapsto> channel\<lparr>memberCount := fcard members'\<rparr>),
                         cs_relayClient :=
                           relayCall (SubscribeToChannel agentId channelId) (cs_relayClient s)\<rparr>)
                 else (Inr True, s)))"

definition leave :: "string \<Rightarrow> UUID \<Rightarrow> ChannelService \<Rightarrow> bool \<times> ChannelService" where
  "leave channelId agentId s =
     (case channels s channelId of
        None \<Rightarrow> (False, s)
      | Some channel \<Rightarrow>
          (case memberships s channelId of
             None \<Rightarrow> (False, s)
           | Some members \<Rightarrow>
               if agentId |\<in>| members
               then
                 let members' = members |-| {|agentId|}
                 in (True,
                     s\<lparr>memberships := (memberships s)(channelId \<mapsto> members'),
                       channels := (channels s)
                         (channelId \<mapsto> channel\<lparr>memberCount := fcard members'\<rparr>),
                       cs_relayClient :=
                         relayCall (UnsubscribeFromChannel agentId channelId) (cs_relayClient s)\<rparr>)
               else (True, s)))"

definition getMembers :: "ChannelService \<Rightarrow> string \<Rightarrow> UUID fset" where
  "getMembers s channelId = (case memberships s channelId of None \<Rightarrow> {||} | Some m \<Rightarrow> m)"

definition addAccessRule :: "string \<Rightarrow> ChannelAccessRule \<Rightarrow> ChannelService \<Rightarrow> bool \<times> ChannelService" where
  "addAccessRule channelId rule s =
     (case channels s channelId of
        None \<Rightarrow> (False, s)
      | Some channel \<Rightarrow>
          (True, s\<lparr>channels := (channels s)
                     (channelId \<mapsto> channel\<lparr>accessRules := accessRules channel @ [rule]\<rparr>)\<rparr>))"

section \<open>MessageService\<close>

record MessageSendInput =
  in_targetId :: string
  in_targetType :: TargetType
  in_type :: "string option"
  in_text :: string
  in_data :: "string option"
  in_threadId :: "string option"
  in_correlationId :: "string option"

text \<open>
  The service's three maps, its project id, the optional relay client (as in
  \<open>ChannelService\<close>) and the signing key fixed by the constructor. The channel service
  it was constructed with is passed to \<open>send\<close> in its current state (\<open>None\<close> when the
  service was built without one). The write-behind calls to storage are not part of
  the state.
\<close>

record MessageService =
  messages :: "string \<rightharpoonup> Message"
  channelMessages :: "string \<rightharpoonup> string list"
  threadMessages :: "string \<rightharpoonup> string list"
  ms_projectId :: UUID
  ms_relayClient :: "RelayCall list option"
  signingKey :: string

definition new_MessageService :: "UUID \<Rightarrow> RelayCall list option \<Rightarrow> string \<Rightarrow> MessageService" where
  "new_MessageService pid relay key =
     \<lparr>messages = Map.empty, channelMessages = Map.empty, threadMessages = Map.empty,
      ms_projectId = pid, ms_relayClient = relay, signingKey = key\<rparr>"

text \<open>The character class \<^verbatim>\<open>\w\<close>: ASCII letters, digits and the underscore.\<close>

definition isWordChar :: "char \<Rightarrow> bool" where
  "isWordChar c =
     (let n = (of_char c :: nat)
      in (48 \<le> n \<and> n \<le> 57) \<or> (65 \<le> n \<and> n \<le> 90) \<or> n = 95 \<or> (97 \<le> n \<and> n \<le> 122))"

text \<open>
  The loop \<^verbatim>\<open>while ((match = /@(\w+)/g.exec(text)) !== null)\<close>. \<open>scanMentions i cs\<close> is
  the search from index \<open>i\<close>, where \<open>cs\<close> is the text from \<open>i\<close> on: the next match starts
  at the first \<^verbatim>\<open>@\<close> that is followed by a word character and takes the longest run of
  word characters; the search resumes behind the match.
\<close>

function scanMentions :: "nat \<Rightarrow> string \<Rightarrow> Mention list" where
  "scanMentions i [] = []"
| "scanMentions i (c # cs) =
     (if c = CHR ''@'' \<and> takeWhile isWordChar cs \<noteq> []
      then
        (let word = takeWhile isWordChar cs
         in \<lparr>mention_type = (if word = ''all'' \<or> word = ''here'' then MentionAll else MentionAgent),
             startIndex = i,
             mention_length = 1 + length word\<rparr>
            # scanMentions (i + 1 + length word) (dropWhile isWordChar cs))
      else scanMentions (i + 1) cs)"
  by pat_completeness auto
termination
  by (relation "measure (\<lambda>(i, cs). length cs)")
     (auto simp: length_dropWhile_le less_Suc_eq_le)

definition extractMentions :: "string \<Rightarrow> Mention list" where
  "extractMentions txt = scanMentions 0 txt"

definition signMessage :: "MessageService \<Rightarrow> string \<Rightarrow> string \<Rightarrow> MessageContent \<Rightarrow> timestamp \<Rightarrow> Signature" where
  "signMessage s mid sender c sent =
     HmacSha256 (signingKey s)
       \<lparr>payload_id = mid, payload_senderId = sender, payload_content = c, payload_sentAt = sent\<rparr>"

definition verifySignature :: "MessageService \<Rightarrow> Message \<Rightarrow> bool" where
  "verifySignature s message =
     (let expectedSig = signMessage s (msg_id message) (senderId message) (content message) (sentAt message)
      in signature message = expectedSig)"

definition broadcastMessage :: "Message \<Rightarrow> MessageService \<Rightarrow> MessageService" where
  "broadcastMessage message s =
     (case ms_relayClient s of
        None \<Rightarrow> s
      | Some calls \<Rightarrow>
          (case targetType message of
             TargetChannel \<Rightarrow> s\<lparr>ms_relayClient := Some (calls @ [BroadcastToChannel (targetId message) message])\<rparr>
           | TargetAgent \<Rightarrow> s\<lparr>ms_relayClient := Some (calls @ [SendToAgent (targetId message) message])\<rparr>
           | TargetBroadcast \<Rightarrow> s\<lparr>ms_relayClient := Some (calls @ [Broadcast message])\<rparr>))"

text \<open>Appending an id to an index entry, creating the entry when it is missing.\<close>

definition pushId :: "(string \<rightharpoonup> string list) \<Rightarrow> string \<Rightarrow> string \<Rightarrow> (string \<rightharpoonup> string list)" where
  "pushId idx k v = idx(k \<mapsto> (case idx k of None \<Rightarrow> [] | Some ids \<Rightarrow> ids) @ [v])"

text \<open>A string used as a condition: \<^verbatim>\<open>undefined\<close> and the empty string are falsy.\<close>

definition truthy :: "string option \<Rightarrow> bool" where
  "truthy x = (case x of None \<Rightarrow> False | Some v \<Rightarrow> v \<noteq> [])"

definition TEXT :: string where
  "TEXT = ''text''"

text \<open>\<^verbatim>\<open>send(input, senderId)\<close>; \<open>uid\<close> is the value of \<^verbatim>\<open>uuid()\<close>, \<open>now\<close> the clock,
  \<open>channelService\<close> the channel service given to the constructor.\<close>

definition send ::
  "string \<Rightarrow> timestamp \<Rightarrow> ChannelService option \<Rightarrow> MessageSendInput \<Rightarrow> UUID \<Rightarrow> MessageService
     \<Rightarrow> (error + Message) \<times> MessageService" where
  "send uid now channelService input sender s =
     (if in_targetType input = TargetChannel \<and>
         (case channelService of
            None \<Rightarrow> False
          | Some cs \<Rightarrow> \<not> checkAccess cs (in_targetId input) sender WRITE)
      then (Inl (PermissionDenied ''cannot send to this channel''), s)
      else
        let mid = ''msg-'' @ uid;
            c = \<lparr>content_text = in_text input, data = in_data input,
                 mentions = extractMentions (in_text input), attachments = []\<rparr>;
            message = \<lparr>msg_id = mid,
                       msg_projectId = ms_projectId s,
                       targetId = in_targetId input,
                       targetType = in_targetType input,
                       senderId = sender,
                       msg_type = (if truthy (in_type input) then the (in_type input) else TEXT),
                       content = c,
                       threadId = in_threadId input,
                       correlationId = in_correlationId input,
                       signature = signMessage s mid sender c now,
                       deliveryStatus = Sent,
                       sentAt = now,
                       editedAt = None,
                       deletedAt = None\<rparr>;
            s1 = s\<lparr>messages := (messages s)(mid \<mapsto> message)\<rparr>;
            s2 = (if in_targetType input = TargetChannel
                  then s1\<lparr>channelMessages := pushId (channelMessages s1) (in_targetId input) mid\<rparr>
                  else s1);
            s3 = (if truthy (in_threadId input)
                  then s2\<lparr>threadMessages := pushId (threadMessages s2) (the (in_threadId input)) mid\<rparr>
                  else s2)
        in (Inr message, broadcastMessage message s3))"

definition getById :: "MessageService \<Rightarrow> string \<Rightarrow> Message option" where
  "getById s mid = messages s mid"

text \<open>\<^verbatim>\<open>ids.map(id => this.messages.get(id)).filter(Boolean)\<close>.\<close>

definition lookupAll :: "MessageService \<Rightarrow> string list \<Rightarrow> Message list" where
  "lookupAll s ids = List.map_filter (messages s) ids"

text \<open>\<^verbatim>\<open>sort((a, b) => time(b.sentAt) - time(a.sentAt))\<close>: a stable sort, newest first.\<close>

definition sortNewestFirst :: "Message list \<Rightarrow> Message list" where
  "sortNewestFirst ms = sort_key (\<lambda>m. - int (sentAt m)) ms"

definition sortOldestFirst :: "Message list \<Rightarrow> Message list" where
  "sortOldestFirst ms = sort_key (\<lambda>m. int (sentAt m)) ms"

text \<open>\<^verbatim>\<open>xs.slice(0, n)\<close>: a negative \<open>n\<close> counts from the end.\<close>

definition slice0 :: "'a list \<Rightarrow> int \<Rightarrow> 'a list" where
  "slice0 xs n = (if n < 0 then take (nat (int (length xs) + n)) xs else take (nat n) xs)"

text \<open>
  \<^verbatim>\<open>getChannelMessages(channelId, limit = 50, before?)\<close>. When the list is empty and a
  storage is present the code starts a load from storage and reads the index again; the
  load fills the maps in a promise callback, after the call has returned, so the second
  read sees what the first one saw.
\<close>

definition getChannelMessages ::
  "MessageService \<Rightarrow> string \<Rightarrow> int option \<Rightarrow> string option \<Rightarrow> Message list" where
  "getChannelMessages s channelId limit before =
     (let n = (case limit of None \<Rightarrow> 50 | Some l \<Rightarrow> l);
          ids = (case channelMessages s channelId of None \<Rightarrow> [] | Some is \<Rightarrow> is);
          ms = lookupAll s ids;
          ms = filter (\<lambda>m. deletedAt m = None) ms;
          ms = sortNewestFirst ms;
          ms = (if truthy before
                then (case messages s (the before) of
                        None \<Rightarrow> ms
                      | Some beforeMsg \<Rightarrow> filter (\<lambda>m. sentAt m < sentAt beforeMsg) ms)
                else ms)
      in slice0 ms n)"

definition getThreadMessages :: "MessageService \<Rightarrow> string \<Rightarrow> Message list" where
  "getThreadMessages s thread =
     (let ids = (case threadMessages s thread of None \<Rightarrow> [] | Some is \<Rightarrow> is)
      in sortOldestFirst (filter (\<lambda>m. deletedAt m = None) (lookupAll s ids)))"

text \<open>\<^verbatim>\<open>edit(messageId, newText, editorId)\<close>; \<open>now\<close> is the clock.\<close>

definition edit ::
  "timestamp \<Rightarrow> string \<Rightarrow> string \<Rightarrow> UUID \<Rightarrow> MessageService \<Rightarrow> (error + bool) \<times> MessageService" where
  "edit now messageId newText editorId s =
     (case messages s messageId of
        None \<Rightarrow> (Inr False, s)
      | Some message \<Rightarrow>
          if senderId message \<noteq> editorId
          then (Inl (PermissionDenied ''only sender can edit message''), s)
          else
            let m1 = message\<lparr>content := (content message)\<lparr>content_text := newText\<rparr>\<rparr>;
                m2 = m1\<lparr>editedAt := Some now\<rparr>;
                m3 = m2\<lparr>signature := signMessage s (msg_id m2) (senderId m2) (content m2) (sentAt m2)\<rparr>
            in (Inr True,
                s\<lparr>messages := (messages s)(messageId \<mapsto> m3),
                  ms_relayClient :=
                    relayCall (EmitRelayEvent editorId (targetId m3) messageId (Edited newText))
                      (ms_relayClient s)\<rparr>))"

definition deleteMessage ::
  "timestamp \<Rightarrow> string \<Rightarrow> UUID \<Rightarrow> MessageService \<Rightarrow> (error + bool) \<times> MessageService" where
  "deleteMessage now messageId deleterId s =
     (case messages s messageId of
        None \<Rightarrow> (Inr False, s)
      | Some message \<Rightarrow>
          if senderId message \<noteq> deleterId
          then (Inl (PermissionDenied ''only sender can delete message''), s)
          else
            (Inr True,
             s\<lparr>messages := (messages s)(messageId \<mapsto> message\<lparr>deletedAt := Some now\<rparr>),
               ms_relayClient :=
                 relayCall (EmitRelayEvent deleterId (targetId message) messageId Deleted)
                   (ms_relayClient s)\<rparr>))"

definition markDelivered :: "string \<Rightarrow> UUID \<Rightarrow> MessageService \<Rightarrow> MessageService" where
  "markDelivered messageId recipientId s =
     (case messages s messageId of
        None \<Rightarrow> s
      | Some message \<Rightarrow>
          if deliveryStatus message = Sent
          then s\<lparr>messages := (messages s)(messageId \<mapsto> message\<lparr>deliveryStatus := Delivered\<rparr>)\<rparr>
          else s)"

definition markRead :: "string \<Rightarrow> UUID \<Rightarrow> MessageService \<Rightarrow> MessageService" where
  "markRead messageId readerId s =
     (case messages s messageId of
        None \<Rightarrow> s
      | Some message \<Rightarrow>
          s\<lparr>messages := (messages s)(messageId \<mapsto> message\<lparr>deliveryStatus := Read\<rparr>)\<rparr>)"

section \<open>AuthService: capability authorization\<close>

datatype Action = ActionRead | ActionWrite | ActionAdmin

record Permission =
  resource :: string
  actions :: "Action list"

text \<open>Modelled from the spec: \<^verbatim>\<open>AuthService.checkPermissions\<close> (the spec's \<open>authorize\<close>),
  whose implementation file is not among the sources. A resource matches a pattern
  that is equal to it, or is the global \<^verbatim>\<open>*\<close>, or ends in \<^verbatim>\<open>*\<close> with the resource starting
  with the rest of the pattern.\<close>

definition matchResource :: "string \<Rightarrow> string \<Rightarrow> bool" where
  "matchResource pattern res =
     (pattern = res \<or> pattern = ''*'' \<or>
      (pattern \<noteq> [] \<and> last pattern = CHR ''*'' \<and>
       take (length (butlast pattern)) res = butlast pattern))"

text \<open>Modelled from the spec: an action is granted by a capability whose action set
  contains it or contains \<^verbatim>\<open>admin\<close>.\<close>

definition matchAction :: "Action list \<Rightarrow> Action \<Rightarrow> bool" where
  "matchAction acts action = (action \<in> set acts \<or> ActionAdmin \<in> set acts)"

text \<open>Modelled from the spec: \<open>authorize\<close> holds when some capability of the set matches
  the resource and grants the action.\<close>

definition authorize :: "Permission list \<Rightarrow> string \<Rightarrow> Action \<Rightarrow> bool" where
  "authorize capabilitySet res action =
     list_ex (\<lambda>p. matchResource (resource p) res \<and> matchAction (actions p) action) capabilitySet"

section \<open>Notions used in the statements\<close>

text \<open>The ordering \<open>read < write < admin\<close> of the access levels, as the spec words it.\<close>

definition level_rank :: "ChannelAccessLevel \<Rightarrow> nat" where
  "level_rank l = (case l of READ \<Rightarrow> 0 | WRITE \<Rightarrow> 1 | ADMIN \<Rightarrow> 2)"

definition statusOf :: "MessageService \<Rightarrow> string \<Rightarrow> MessageDeliveryStatus option" where
  "statusOf s mid = map_option deliveryStatus (messages s mid)"




text \<open>Channel listings, as the spec words them.\<close>

definition newestFirst :: "Message list \<Rightarrow> bool" where
  "newestFirst ms = sorted_wrt (\<lambda>a b. sentAt b \<le> sentAt a) ms"






text \<open>The cached member count of a channel agrees with its membership set.\<close>

definition countConsistent :: "ChannelService \<Rightarrow> string \<Rightarrow> bool" where
  "countConsistent s channelId =
     (map_option memberCount (channels s channelId) = Some (fcard (getMembers s channelId)))"

subsection \<open>Example inputs\<close>

definition privateInput :: ChannelCreateInput where
  "privateInput = \<lparr>input_name = ''ops'', input_type = Some PRIVATE, input_topic = None,
     input_metadata = None\<rparr>"

definition directInput :: ChannelCreateInput where
  "directInput = \<lparr>input_name = ''dm'', input_type = Some DIRECT, input_topic = None,
     input_metadata = None\<rparr>"

definition broadcastInput :: ChannelCreateInput where
  "broadcastInput = \<lparr>input_name = ''news'', input_type = Some BROADCAST, input_topic = None,
     input_metadata = None\<rparr>"

definition emptyChannels :: ChannelService where
  "emptyChannels = new_ChannelService ''proj'' None"

definition privateService :: ChannelService where
  "privateService = snd (create ''1'' 0 privateInput ''agent-1'' emptyChannels)"

text \<open>The private channel with two rules added, in this order: agent-2 may write,
  everyone may administer.\<close>

definition ruleService :: ChannelService where
  "ruleService =
     snd (addAccessRule ''ch-1''
            \<lparr>principal = ''*'', principalType = PrincipalAll, level = ADMIN\<rparr>
            (snd (addAccessRule ''ch-1''
                    \<lparr>principal = ''agent-2'', principalType = PrincipalAgent, level = WRITE\<rparr>
                    privateService)))"

definition emptyLedger :: MessageService where
  "emptyLedger = new_MessageService ''proj'' None ''key''"

definition channelText :: "string \<Rightarrow> string \<Rightarrow> MessageSendInput" where
  "channelText cid txt = \<lparr>in_targetId = cid, in_targetType = TargetChannel, in_type = None,
     in_text = txt, in_data = None, in_threadId = None, in_correlationId = None\<rparr>"

definition directText :: "string \<Rightarrow> string \<Rightarrow> MessageSendInput" where
  "directText agent txt = \<lparr>in_targetId = agent, in_targetType = TargetAgent, in_type = None,
     in_text = txt, in_data = None, in_threadId = None, in_correlationId = None\<rparr>"

definition helloLedger :: MessageService where
  "helloLedger =
     snd (send ''1'' 1000 None (channelText ''ch-1'' ''hello'') ''agent-1'' emptyLedger)"

definition relayLedger :: MessageService where
  "relayLedger = new_MessageService ''proj'' (Some []) ''key''"


text \<open>A channel as \<^verbatim>\<open>storage.getAllChannels()\<close> returns it after a restart, and the service
  that \<^verbatim>\<open>initializeChannels\<close> builds from it.\<close>

definition storedGeneral :: Channel where
  "storedGeneral =
     \<lparr>channel_id = ''ch-1'', channel_name = ''general'', channel_projectId = ''proj'',
      channel_type = PUBLIC,
      accessRules = [\<lparr>principal = ''*'', principalType = PrincipalAll, level = WRITE\<rparr>],
      defaultAccess = Some READ,
      metadata = \<lparr>displayName = ''general'', topic = None, isArchived = False,
                  allowExternal = False\<rparr>,
      createdBy = ''system'', createdAt = 0, memberCount = 2\<rparr>"

definition reloadedChannels :: ChannelService where
  "reloadedChannels = initializeChannels (Some [storedGeneral]) ''7'' ''8'' 5000 emptyChannels"

section \<open>ChannelService: access control\<close>

lemma accessLevelSatisfies_rank:
  "accessLevelSatisfies actual required = (level_rank required \<le> level_rank actual)"
  by (cases actual; cases required)
     (simp_all add: accessLevelSatisfies_def levels_def level_rank_def)

lemma checkRules_find:
  "checkRules rules agentId req =
     map_option (\<lambda>r. accessLevelSatisfies (level r) req) (find (\<lambda>r. matchRule r agentId) rules)"
  by (induction rules) simp_all

lemma matchRule_iff:
  "matchRule rule agentId \<longleftrightarrow>
     principalType rule = PrincipalAll \<or>
     (principalType rule = PrincipalAgent \<and> principal rule = agentId)"
  by (simp add: matchRule_def)

text \<open>
  C3. \<open>checkAccess\<close> follows the access-resolution order: the first rule of the ordered rule
  list whose principal matches the identity decides (a rule for everyone matches every
  identity, a rule for an agent matches the identity it names, no other rule matches),
  and its level satisfies the requirement exactly when it is at least the required level
  on \<open>read < write < admin\<close>; only when no rule matches does \<open>defaultAccess\<close> decide, on the
  same ordering; with no default the access is denied. (An unknown channel is denied.)
\<close>

theorem checkAccess_resolution_order:
  "checkAccess s channelId agentId required =
     (case channels s channelId of
        None \<Rightarrow> False
      | Some channel \<Rightarrow>
          (case find (\<lambda>r. principalType r = PrincipalAll \<or>
                           (principalType r = PrincipalAgent \<and> principal r = agentId))
                  (accessRules channel) of
             Some rule \<Rightarrow> level_rank required \<le> level_rank (level rule)
           | None \<Rightarrow>
               (case defaultAccess channel of
                  None \<Rightarrow> False
                | Some d \<Rightarrow> level_rank required \<le> level_rank d)))"
  by (simp add: checkAccess_def checkRules_find accessLevelSatisfies_rank matchRule_iff
           split: option.splits)

theorem checkAccess_resolution_order_witness:
  "checkAccess privateService ''ch-1'' ''agent-2'' READ = False \<and>
   checkAccess ruleService ''ch-1'' ''agent-2'' READ = True \<and>
   checkAccess ruleService ''ch-1'' ''agent-2'' WRITE = True \<and>
   checkAccess ruleService ''ch-1'' ''agent-2'' ADMIN = False \<and>
   checkAccess ruleService ''ch-1'' ''agent-3'' ADMIN = True \<and>
   checkAccess ruleService ''ch-9'' ''agent-2'' READ = False"
proof -
  have priv: "channels privateService ''ch-1'' =
      Some \<lparr>channel_id = ''ch-1'', channel_name = ''ops'', channel_projectId = ''proj'',
            channel_type = PRIVATE, accessRules = [], defaultAccess = None,
            metadata = \<lparr>displayName = ''ops'', topic = None, isArchived = False,
                        allowExternal = False\<rparr>,
            createdBy = ''agent-1'', createdAt = 0, memberCount = 0\<rparr>"
    by (simp add: privateService_def privateInput_def emptyChannels_def new_ChannelService_def
          create_def Let_def orPublic_def spreadMetadata_def)
  have rules: "map_option (\<lambda>c. (accessRules c, defaultAccess c)) (channels ruleService ''ch-1'') =
      Some ([\<lparr>principal = ''agent-2'', principalType = PrincipalAgent, level = WRITE\<rparr>,
             \<lparr>principal = ''*'', principalType = PrincipalAll, level = ADMIN\<rparr>], None)"
    by (simp add: ruleService_def addAccessRule_def priv)
  have unknown: "channels ruleService ''ch-9'' = None"
    by (simp add: ruleService_def addAccessRule_def priv privateService_def privateInput_def
          emptyChannels_def new_ChannelService_def create_def Let_def)
  from rules obtain c where c: "channels ruleService ''ch-1'' = Some c"
    and cr: "accessRules c =
      [\<lparr>principal = ''agent-2'', principalType = PrincipalAgent, level = WRITE\<rparr>,
       \<lparr>principal = ''*'', principalType = PrincipalAll, level = ADMIN\<rparr>]"
    and cd: "defaultAccess c = None"
    by auto
  show ?thesis
    using checkAccess_resolution_order [of privateService "''ch-1''" "''agent-2''" READ]
      checkAccess_resolution_order [of ruleService "''ch-1''" "''agent-2''" READ]
      checkAccess_resolution_order [of ruleService "''ch-1''" "''agent-2''" WRITE]
      checkAccess_resolution_order [of ruleService "''ch-1''" "''agent-2''" ADMIN]
      checkAccess_resolution_order [of ruleService "''ch-1''" "''agent-3''" ADMIN]
      checkAccess_resolution_order [of ruleService "''ch-9''" "''agent-2''" READ]
    by (simp add: priv c cr cd unknown level_rank_def)
qed

text \<open>
  C2, as stated, fails: a channel created with kind direct or broadcast gets
  \<open>defaultAccess = read\<close>, not none, and on a fresh direct channel an identity matched by
  no rule is granted read access.
\<close>

theorem create_defaultAccess_counterexample:
  "map_sum id defaultAccess (fst (create ''1'' 0 directInput ''agent-1'' emptyChannels)) =
     Inr (Some READ) \<and>
   map_sum id defaultAccess (fst (create ''1'' 0 broadcastInput ''agent-1'' emptyChannels)) =
     Inr (Some READ) \<and>
   checkAccess (snd (create ''1'' 0 directInput ''agent-1'' emptyChannels))
     ''ch-1'' ''agent-2'' READ"
  by (simp add: create_def directInput_def broadcastInput_def emptyChannels_def
        new_ChannelService_def Let_def orPublic_def checkAccess_def accessLevelSatisfies_def
        levels_def)

text \<open>
  C2, amended. \<open>create\<close> derives the access configuration from the channel kind: private
  has no rules and no default access; direct has no rules and default access read;
  broadcast has the one rule \<open>{everyone, read}\<close> and default access read; public has the
  one rule \<open>{everyone, write}\<close> and default access read. On the fresh channel every
  identity is therefore denied on a private channel, granted exactly read on a direct or
  broadcast channel, and granted read and write on a public one.
\<close>

theorem create_access_configuration:
  assumes "nameIndex s (input_name input) = None"
  shows "case fst (create uid now input creator s) of
           Inl e \<Rightarrow> False
         | Inr ch \<Rightarrow>
             channels (snd (create uid now input creator s)) (''ch-'' @ uid) = Some ch \<and>
             channel_type ch = orPublic (input_type input) \<and>
             (accessRules ch, defaultAccess ch) =
               (case orPublic (input_type input) of
                  PUBLIC \<Rightarrow>
                    ([\<lparr>principal = ''*'', principalType = PrincipalAll, level = WRITE\<rparr>], Some READ)
                | PRIVATE \<Rightarrow> ([], None)
                | BROADCAST \<Rightarrow>
                    ([\<lparr>principal = ''*'', principalType = PrincipalAll, level = READ\<rparr>], Some READ)
                | DIRECT \<Rightarrow> ([], Some READ)) \<and>
             checkAccess (snd (create uid now input creator s)) (''ch-'' @ uid) agentId required =
               (case orPublic (input_type input) of
                  PUBLIC \<Rightarrow> required \<noteq> ADMIN
                | PRIVATE \<Rightarrow> False
                | BROADCAST \<Rightarrow> required = READ
                | DIRECT \<Rightarrow> required = READ)"
  using assms
  by (cases "input_type input"; cases required)
     (auto simp: create_def Let_def orPublic_def checkAccess_def matchRule_def
                 accessLevelSatisfies_def levels_def split: ChannelType.splits)

theorem create_access_configuration_witness:
  "nameIndex emptyChannels (input_name broadcastInput) = None \<and>
   map_sum id (\<lambda>ch. (accessRules ch, defaultAccess ch))
     (fst (create ''7'' 5 broadcastInput ''system'' emptyChannels)) =
     Inr ([\<lparr>principal = ''*'', principalType = PrincipalAll, level = READ\<rparr>], Some READ)"
proof -
  have free: "nameIndex emptyChannels (input_name broadcastInput) = None"
    by (simp add: emptyChannels_def new_ChannelService_def)
  show ?thesis
    using free
      create_access_configuration [OF free, of "''7''" 5 "''system''" "''agent-2''" READ]
    by (simp add: broadcastInput_def orPublic_def split: sum.splits)
qed

section \<open>ChannelService: membership\<close>

text \<open>On a channel that has a membership set, as every channel made by \<open>create\<close> has,
  \<open>join\<close> and \<open>leave\<close> succeed, are idempotent and keep the cached count equal to the
  size of the set.\<close>

lemma join_with_members:
  assumes "channels s channelId = Some channel" and "memberships s channelId = Some members"
    and "checkAccess s channelId agentId READ"
  shows "fst (join channelId agentId s) = Inr True"
    and "getMembers (snd (join channelId agentId s)) channelId = finsert agentId members"
    and "join channelId agentId (snd (join channelId agentId s)) =
           (Inr True, snd (join channelId agentId s))"
    and "countConsistent s channelId \<or> agentId |\<notin>| members \<Longrightarrow>
           countConsistent (snd (join channelId agentId s)) channelId"
  using assms
  by (auto simp: join_def Let_def getMembers_def countConsistent_def checkAccess_def
      split: option.splits)

lemma leave_with_members:
  assumes "channels s channelId = Some channel" and "memberships s channelId = Some members"
  shows "fst (leave channelId agentId s) = True"
    and "getMembers (snd (leave channelId agentId s)) channelId = members |-| {|agentId|}"
    and "agentId |\<notin>| members \<Longrightarrow> leave channelId agentId s = (True, s)"
    and "countConsistent s channelId \<or> agentId |\<in>| members \<Longrightarrow>
           countConsistent (snd (leave channelId agentId s)) channelId"
  using assms
  by (auto simp: leave_def Let_def getMembers_def countConsistent_def
      split: option.splits)

text \<open>
  C7 fails on a channel reloaded from storage by \<open>initializeChannels\<close>: \<open>loadFromStorage\<close> fills \<open>channels\<close> and
  \<open>nameIndex\<close> but creates no membership set (as \<open>create\<close> does), so on such a channel
  \<open>join\<close> by an identity with read access and \<open>leave\<close> return false, nobody becomes a
  member, and the restored \<open>memberCount\<close> differs from the size of the membership set.
\<close>

theorem join_reloaded_channel:
  "channels reloadedChannels ''ch-1'' = Some storedGeneral \<and>
   checkAccess reloadedChannels ''ch-1'' ''agent-1'' READ \<and>
   join ''ch-1'' ''agent-1'' reloadedChannels = (Inr False, reloadedChannels) \<and>
   leave ''ch-1'' ''agent-1'' reloadedChannels = (False, reloadedChannels) \<and>
   getMembers reloadedChannels ''ch-1'' = {||} \<and>
   map_option memberCount (channels reloadedChannels ''ch-1'') = Some 2 \<and>
   \<not> countConsistent (snd (join ''ch-1'' ''agent-1'' reloadedChannels)) ''ch-1''"
  by (simp add: reloadedChannels_def initializeChannels_def createDefaultChannels_def
        loadFromStorage_def emptyChannels_def new_ChannelService_def create_def Let_def
        storedGeneral_def join_def leave_def checkAccess_def matchRule_def
        accessLevelSatisfies_def levels_def getMembers_def countConsistent_def fcard_fempty)

section \<open>AuthService: admin subsumption\<close>

text \<open>
  C9. In capability authorization admin subsumes read and write: whenever a capability
  set grants admin on a resource it grants read and write on it; and the empty capability
  set grants nothing.
\<close>

theorem authorize_admin_subsumes:
  "(authorize C r ActionAdmin \<longrightarrow> authorize C r ActionRead \<and> authorize C r ActionWrite) \<and>
   \<not> authorize [] r a"
  by (auto simp: authorize_def matchAction_def list_ex_iff)

theorem authorize_admin_subsumes_witness:
  "authorize [\<lparr>resource = ''channel:*'', actions = [ActionAdmin]\<rparr>] ''channel:general'' ActionAdmin \<and>
   authorize [\<lparr>resource = ''channel:*'', actions = [ActionAdmin]\<rparr>] ''channel:general'' ActionRead \<and>
   authorize [\<lparr>resource = ''channel:*'', actions = [ActionAdmin]\<rparr>] ''channel:general'' ActionWrite"
proof -
  have admin:
    "authorize [\<lparr>resource = ''channel:*'', actions = [ActionAdmin]\<rparr>] ''channel:general'' ActionAdmin"
    by (simp add: authorize_def matchResource_def matchAction_def)
  show ?thesis
    using admin
      authorize_admin_subsumes
        [of "[\<lparr>resource = ''channel:*'', actions = [ActionAdmin]\<rparr>]" "''channel:general''"]
    by blast
qed

section \<open>MessageService: sending\<close>

lemma signingKey_broadcastMessage [simp]: "signingKey (broadcastMessage m s) = signingKey s"
  by (simp add: broadcastMessage_def split: option.splits TargetType.splits)

lemma messages_broadcastMessage [simp]: "messages (broadcastMessage m s) = messages s"
  by (simp add: broadcastMessage_def split: option.splits TargetType.splits)

lemma channelMessages_broadcastMessage [simp]:
  "channelMessages (broadcastMessage m s) = channelMessages s"
  by (simp add: broadcastMessage_def split: option.splits TargetType.splits)

lemma threadMessages_broadcastMessage [simp]:
  "threadMessages (broadcastMessage m s) = threadMessages s"
  by (simp add: broadcastMessage_def split: option.splits TargetType.splits)

text \<open>What a successful \<open>send\<close> returns and stores.\<close>

lemma send_Inr_fields:
  assumes "fst (send uid now cs input sender s) = Inr m"
  shows "msg_id m = ''msg-'' @ uid"
    and "senderId m = sender"
    and "sentAt m = now"
    and "targetId m = in_targetId input"
    and "targetType m = in_targetType input"
    and "threadId m = in_threadId input"
    and "deliveryStatus m = Sent"
    and "editedAt m = None"
    and "deletedAt m = None"
    and "content m = \<lparr>content_text = in_text input, data = in_data input,
           mentions = extractMentions (in_text input), attachments = []\<rparr>"
    and "signature m = signMessage s (''msg-'' @ uid) sender (content m) now"
    and "messages (snd (send uid now cs input sender s)) = (messages s)(''msg-'' @ uid \<mapsto> m)"
    and "signingKey (snd (send uid now cs input sender s)) = signingKey s"
  using assms by (auto simp: send_def Let_def split: if_splits)

text \<open>
  C1, as stated, fails: a ledger constructed without a channel service consults no
  access check. A send to the private channel by an identity that the channel service
  denies write access is accepted, stored and entered in the channel index.
\<close>

theorem send_channel_unchecked_counterexample:
  "\<not> checkAccess privateService ''ch-1'' ''agent-2'' WRITE \<and>
   \<not> isl (fst (send ''2'' 1000 None (channelText ''ch-1'' ''hi'') ''agent-2'' emptyLedger)) \<and>
   map_option senderId
     (messages (snd (send ''2'' 1000 None (channelText ''ch-1'' ''hi'') ''agent-2'' emptyLedger))
        ''msg-2'') = Some ''agent-2'' \<and>
   channelMessages (snd (send ''2'' 1000 None (channelText ''ch-1'' ''hi'') ''agent-2'' emptyLedger))
     ''ch-1'' = Some [''msg-2'']"
  by (simp add: privateService_def privateInput_def emptyChannels_def new_ChannelService_def
        create_def Let_def orPublic_def checkAccess_def send_def channelText_def emptyLedger_def
        new_MessageService_def truthy_def pushId_def)

text \<open>
  C1, amended. For a send to a channel by a ledger constructed with a channel service,
  \<open>send\<close> is refused exactly when \<open>checkAccess(targetId, senderId, write)\<close> fails; then it
  raises \<open>PermissionDenied\<close> and nothing is stored: the state is the one before, so the
  message map, the channel index and the thread index are unchanged, and so is what the
  channel lists. A ledger constructed without a channel service makes no check: the send
  succeeds, and the message is stored and entered in the channel index.
\<close>

theorem send_channel_access_check:
  assumes "in_targetType input = TargetChannel"
  shows "(isl (fst (send uid now (Some cs) input sender s)) \<longleftrightarrow>
            \<not> checkAccess cs (in_targetId input) sender WRITE) \<and>
         (\<not> checkAccess cs (in_targetId input) sender WRITE \<longrightarrow>
            send uid now (Some cs) input sender s =
              (Inl (PermissionDenied ''cannot send to this channel''), s) \<and>
            messages (snd (send uid now (Some cs) input sender s)) = messages s \<and>
            channelMessages (snd (send uid now (Some cs) input sender s)) = channelMessages s \<and>
            threadMessages (snd (send uid now (Some cs) input sender s)) = threadMessages s \<and>
            getChannelMessages (snd (send uid now (Some cs) input sender s))
                (in_targetId input) limit before =
              getChannelMessages s (in_targetId input) limit before) \<and>
         \<not> isl (fst (send uid now None input sender s)) \<and>
         messages (snd (send uid now None input sender s)) (''msg-'' @ uid) =
           Some (projr (fst (send uid now None input sender s))) \<and>
         channelMessages (snd (send uid now None input sender s)) =
           pushId (channelMessages s) (in_targetId input) (''msg-'' @ uid)"
proof -
  have checked: "isl (fst (send uid now (Some cs) input sender s)) \<longleftrightarrow>
      \<not> checkAccess cs (in_targetId input) sender WRITE"
    using assms by (simp add: send_def Let_def)
  have denied: "\<not> checkAccess cs (in_targetId input) sender WRITE \<longrightarrow>
      send uid now (Some cs) input sender s =
        (Inl (PermissionDenied ''cannot send to this channel''), s)"
    using assms by (simp add: send_def Let_def)
  have nocheck: "\<not> isl (fst (send uid now None input sender s))"
    by (simp add: send_def Let_def)
  have stored: "messages (snd (send uid now None input sender s)) (''msg-'' @ uid) =
      Some (projr (fst (send uid now None input sender s)))"
    by (simp add: send_def Let_def)
  have indexed: "channelMessages (snd (send uid now None input sender s)) =
      pushId (channelMessages s) (in_targetId input) (''msg-'' @ uid)"
    using assms by (simp add: send_def Let_def)
  from checked denied nocheck stored indexed show ?thesis
    by simp
qed

theorem send_channel_access_check_witness:
  "in_targetType (channelText ''ch-1'' ''hi'') = TargetChannel \<and>
   \<not> checkAccess privateService ''ch-1'' ''agent-2'' WRITE \<and>
   send ''2'' 1000 (Some privateService) (channelText ''ch-1'' ''hi'') ''agent-2'' helloLedger =
     (Inl (PermissionDenied ''cannot send to this channel''), helloLedger) \<and>
   \<not> isl (fst (send ''2'' 1000 None (channelText ''ch-1'' ''hi'') ''agent-2'' helloLedger))"
proof -
  have target: "in_targetType (channelText ''ch-1'' ''hi'') = TargetChannel"
    by (simp add: channelText_def)
  have denied: "\<not> checkAccess privateService ''ch-1'' ''agent-2'' WRITE"
    by (simp add: privateService_def privateInput_def emptyChannels_def new_ChannelService_def
          create_def Let_def orPublic_def checkAccess_def)
  have tid: "in_targetId (channelText ''ch-1'' ''hi'') = ''ch-1''"
    by (simp add: channelText_def)
  from send_channel_access_check
    [OF target, where uid = "''2''" and now = 1000 and cs = privateService
       and sender = "''agent-2''" and s = helloLedger]
  have "send ''2'' 1000 (Some privateService) (channelText ''ch-1'' ''hi'') ''agent-2'' helloLedger =
     (Inl (PermissionDenied ''cannot send to this channel''), helloLedger)"
    and "\<not> isl (fst (send ''2'' 1000 None (channelText ''ch-1'' ''hi'') ''agent-2'' helloLedger))"
    using denied unfolding tid by blast+
  with target denied show ?thesis by blast
qed

text \<open>
  C10, as stated, fails: a ledger constructed without a relay client stores a direct
  message and dispatches nothing, and a direct message without a thread id enters no
  index.
\<close>

theorem send_non_channel_counterexample:
  "\<not> isl (fst (send ''1'' 1000 None (directText ''agent-2'' ''ping'') ''agent-1'' emptyLedger)) \<and>
   ms_relayClient (snd (send ''1'' 1000 None (directText ''agent-2'' ''ping'') ''agent-1'' emptyLedger))
     = None \<and>
   channelMessages (snd (send ''1'' 1000 None (directText ''agent-2'' ''ping'') ''agent-1'' emptyLedger))
     = Map.empty \<and>
   threadMessages (snd (send ''1'' 1000 None (directText ''agent-2'' ''ping'') ''agent-1'' emptyLedger))
     = Map.empty"
  by (simp add: send_def Let_def directText_def emptyLedger_def new_MessageService_def
        broadcastMessage_def truthy_def)

text \<open>
  C10, amended. \<open>send\<close> checks access only for channel targets: for a target of kind
  agent or broadcast the channel service is not consulted, whatever the sender; \<open>send\<close>
  never raises and always stores the message; the channel index is left alone; the
  message enters the thread index exactly when a non-empty thread id is given; and it
  is dispatched (to the agent, or to all) when the ledger has a relay client.
\<close>

theorem send_non_channel_unchecked:
  assumes "in_targetType input \<noteq> TargetChannel"
  shows "send uid now channelService input sender s = send uid now None input sender s \<and>
         (case fst (send uid now channelService input sender s) of
            Inl e \<Rightarrow> False
          | Inr m \<Rightarrow>
              msg_id m = ''msg-'' @ uid \<and> senderId m = sender \<and>
              targetId m = in_targetId input \<and> targetType m = in_targetType input \<and>
              content_text (content m) = in_text input \<and>
              messages (snd (send uid now channelService input sender s)) =
                (messages s)(''msg-'' @ uid \<mapsto> m) \<and>
              channelMessages (snd (send uid now channelService input sender s)) =
                channelMessages s \<and>
              threadMessages (snd (send uid now channelService input sender s)) =
                (if truthy (in_threadId input)
                 then pushId (threadMessages s) (the (in_threadId input)) (''msg-'' @ uid)
                 else threadMessages s) \<and>
              ms_relayClient (snd (send uid now channelService input sender s)) =
                (case ms_relayClient s of
                   None \<Rightarrow> None
                 | Some calls \<Rightarrow>
                     Some (calls @ [if in_targetType input = TargetAgent
                                    then SendToAgent (in_targetId input) m else Broadcast m])))"
  using assms
  by (cases "in_targetType input")
     (auto simp: send_def Let_def broadcastMessage_def split: option.splits)

theorem send_non_channel_unchecked_witness:
  "in_targetType (directText ''agent-2'' ''ping'') \<noteq> TargetChannel \<and>
   \<not> isl (fst (send ''1'' 1000 (Some privateService) (directText ''agent-2'' ''ping'')
                ''agent-1'' relayLedger)) \<and>
   messages (snd (send ''1'' 1000 (Some privateService) (directText ''agent-2'' ''ping'')
                ''agent-1'' relayLedger)) ''msg-1'' =
     Some (projr (fst (send ''1'' 1000 (Some privateService) (directText ''agent-2'' ''ping'')
                ''agent-1'' relayLedger))) \<and>
   ms_relayClient (snd (send ''1'' 1000 (Some privateService) (directText ''agent-2'' ''ping'')
                ''agent-1'' relayLedger)) =
     Some [SendToAgent ''agent-2''
             (projr (fst (send ''1'' 1000 (Some privateService) (directText ''agent-2'' ''ping'')
                ''agent-1'' relayLedger)))]"
proof -
  have target: "in_targetType (directText ''agent-2'' ''ping'') \<noteq> TargetChannel"
    by (simp add: directText_def)
  have relay: "ms_relayClient relayLedger = Some []"
    by (simp add: relayLedger_def new_MessageService_def)
  have tid: "in_targetId (directText ''agent-2'' ''ping'') = ''agent-2''"
    and tty: "in_targetType (directText ''agent-2'' ''ping'') = TargetAgent"
    by (simp_all add: directText_def)
  show ?thesis
    using target
      send_non_channel_unchecked
        [OF target, where uid = "''1''" and now = 1000 and channelService = "Some privateService"
           and sender = "''agent-1''" and s = relayLedger]
    by (auto simp: relay tid tty split: sum.splits)
qed

section \<open>MessageService: signatures\<close>

text \<open>
  C5, as stated, fails: an edit by the sender that keeps the text succeeds and leaves
  the signature as it was.
\<close>

theorem edit_same_text_counterexample:
  "fst (edit 2000 ''msg-1'' ''hello'' ''agent-1'' helloLedger) = Inr True \<and>
   map_option signature (messages helloLedger ''msg-1'') \<noteq> None \<and>
   map_option signature
     (messages (snd (edit 2000 ''msg-1'' ''hello'' ''agent-1'' helloLedger)) ''msg-1'') =
     map_option signature (messages helloLedger ''msg-1'')"
  by (simp add: helloLedger_def emptyLedger_def new_MessageService_def channelText_def
        send_def edit_def Let_def broadcastMessage_def truthy_def pushId_def signMessage_def)

text \<open>
  C5, amended. For every message produced by \<open>send\<close>: the stored record verifies
  immediately after the send; if its text is replaced directly, without \<open>edit\<close>, it
  verifies exactly when the text is the one that was signed, so any change of the text
  is detected; and an edit by the sender succeeds, sets the text and \<open>editedAt\<close>, leaves a
  record that verifies, and gives a signature that differs from the original exactly
  when the new text differs from the old one.
\<close>

theorem signature_round_trip:
  assumes "fst (send uid now cs input sender s) = Inr m"
  shows "messages (snd (send uid now cs input sender s)) (msg_id m) = Some m \<and>
     verifySignature (snd (send uid now cs input sender s)) m \<and>
     (verifySignature (snd (send uid now cs input sender s))
        (m\<lparr>content := (content m)\<lparr>content_text := t\<rparr>\<rparr>) \<longleftrightarrow> t = content_text (content m)) \<and>
     (case edit now' (msg_id m) newText sender (snd (send uid now cs input sender s)) of
        (Inl e, s'') \<Rightarrow> False
      | (Inr ok, s'') \<Rightarrow>
          ok \<and>
          (case messages s'' (msg_id m) of
             None \<Rightarrow> False
           | Some m' \<Rightarrow>
               content_text (content m') = newText \<and>
               editedAt m' = Some now' \<and>
               verifySignature s'' m' \<and>
               (signature m' = signature m \<longleftrightarrow> newText = content_text (content m))))"
proof -
  let ?s' = "snd (send uid now cs input sender s)"
  note f = send_Inr_fields [OF assms]
  have stored: "messages ?s' (msg_id m) = Some m"
    by (simp add: f(1) f(12))
  have key: "signingKey ?s' = signingKey s"
    by (rule f(13))
  have sig: "signature m = HmacSha256 (signingKey s)
      \<lparr>payload_id = msg_id m, payload_senderId = senderId m, payload_content = content m,
       payload_sentAt = sentAt m\<rparr>"
    by (simp add: f(11) f(1) f(2) f(3) signMessage_def)
  have v: "verifySignature ?s' m"
    by (simp add: verifySignature_def signMessage_def key sig)
  have content_eq: "(content m)\<lparr>content_text := t\<rparr> = content m \<longleftrightarrow> t = content_text (content m)"
    for t
    by (cases "content m") auto
  have tamper: "verifySignature ?s' (m\<lparr>content := (content m)\<lparr>content_text := t\<rparr>\<rparr>)
      \<longleftrightarrow> t = content_text (content m)"
    using content_eq [of t] by (auto simp: verifySignature_def signMessage_def key sig)
  have ed: "(case edit now' (msg_id m) newText sender ?s' of
        (Inl e, s'') \<Rightarrow> False
      | (Inr ok, s'') \<Rightarrow>
          ok \<and>
          (case messages s'' (msg_id m) of
             None \<Rightarrow> False
           | Some m' \<Rightarrow>
               content_text (content m') = newText \<and>
               editedAt m' = Some now' \<and>
               verifySignature s'' m' \<and>
               (signature m' = signature m \<longleftrightarrow> newText = content_text (content m))))"
    using content_eq [of newText]
    by (auto simp: edit_def stored f(2) Let_def verifySignature_def signMessage_def key sig)
  from stored v tamper ed show ?thesis by blast
qed

theorem signature_round_trip_witness:
  "fst (send ''1'' 1000 None (channelText ''ch-1'' ''hello'') ''agent-1'' emptyLedger) =
     Inr (projr (fst (send ''1'' 1000 None (channelText ''ch-1'' ''hello'') ''agent-1'' emptyLedger))) \<and>
   verifySignature helloLedger
     (projr (fst (send ''1'' 1000 None (channelText ''ch-1'' ''hello'') ''agent-1'' emptyLedger))) \<and>
   \<not> verifySignature helloLedger
     ((projr (fst (send ''1'' 1000 None (channelText ''ch-1'' ''hello'') ''agent-1'' emptyLedger)))
        \<lparr>content :=
           (content (projr (fst (send ''1'' 1000 None (channelText ''ch-1'' ''hello'') ''agent-1'' emptyLedger))))
           \<lparr>content_text := ''tampered''\<rparr>\<rparr>)"
proof -
  let ?r = "send ''1'' 1000 None (channelText ''ch-1'' ''hello'') ''agent-1'' emptyLedger"
  have sent: "fst ?r = Inr (projr (fst ?r))"
    by (simp add: send_def Let_def channelText_def)
  have hello: "content_text (content (projr (fst ?r))) = ''hello''"
    using send_Inr_fields(10) [OF sent] by (simp add: channelText_def)
  have ne: "''tampered'' \<noteq> content_text (content (projr (fst ?r)))"
    unfolding hello by simp
  from signature_round_trip
    [OF sent, where t = "''tampered''" and now' = 2000 and newText = "''bye''"] ne sent
  show ?thesis unfolding helloLedger_def by blast
qed

section \<open>MessageService: delivery state\<close>

text \<open>
  C8. \<open>markDelivered\<close> moves the delivery state from sent to delivered and changes
  nothing when the state is delivered or read or the message is unknown; \<open>markRead\<close> sets
  the state to read whatever it was and changes nothing for an unknown message; after
  \<open>markRead\<close> a \<open>markDelivered\<close> leaves the state read. Neither can fail.
\<close>

theorem delivery_state_transitions:
  "statusOf (markDelivered mid r s) mid =
     (case statusOf s mid of
        None \<Rightarrow> None
      | Some Sent \<Rightarrow> Some Delivered
      | Some Delivered \<Rightarrow> Some Delivered
      | Some Read \<Rightarrow> Some Read) \<and>
   (statusOf s mid \<noteq> Some Sent \<longrightarrow> markDelivered mid r s = s) \<and>
   statusOf (markRead mid r s) mid =
     (case statusOf s mid of None \<Rightarrow> None | Some st \<Rightarrow> Some Read) \<and>
   (statusOf s mid = None \<longrightarrow> markRead mid r s = s) \<and>
   markDelivered mid r' (markRead mid r s) = markRead mid r s"
  by (auto simp: statusOf_def markDelivered_def markRead_def
      split: option.splits MessageDeliveryStatus.splits)

theorem delivery_state_transitions_witness:
  "statusOf helloLedger ''msg-1'' = Some Sent \<and>
   statusOf (markDelivered ''msg-1'' ''agent-2'' helloLedger) ''msg-1'' = Some Delivered \<and>
   statusOf (markRead ''msg-1'' ''agent-2'' helloLedger) ''msg-1'' = Some Read \<and>
   statusOf (markRead ''msg-1'' ''agent-2'' helloLedger) ''msg-1'' \<noteq> Some Sent \<and>
   markDelivered ''msg-1'' ''agent-3'' (markRead ''msg-1'' ''agent-2'' helloLedger) =
     markRead ''msg-1'' ''agent-2'' helloLedger \<and>
   statusOf emptyLedger ''msg-9'' = None \<and>
   markRead ''msg-9'' ''agent-2'' emptyLedger = emptyLedger \<and>
   markDelivered ''msg-9'' ''agent-2'' emptyLedger = emptyLedger"
proof -
  have sent: "statusOf helloLedger ''msg-1'' = Some Sent"
    by (simp add: statusOf_def helloLedger_def emptyLedger_def new_MessageService_def
          channelText_def send_def Let_def)
  have unknown: "statusOf emptyLedger ''msg-9'' = None"
    by (simp add: statusOf_def emptyLedger_def new_MessageService_def)
  show ?thesis
    using sent unknown
      delivery_state_transitions
        [where mid = "''msg-1''" and r = "''agent-2''" and r' = "''agent-3''" and s = helloLedger]
      delivery_state_transitions
        [where mid = "''msg-9''" and r = "''agent-2''" and r' = "''agent-3''" and s = emptyLedger]
    by simp
qed

section \<open>MessageService: mentions\<close>









section \<open>MessageService: channel listing\<close>




lemma newestFirst_filter: "newestFirst ms \<Longrightarrow> newestFirst (filter P ms)"
  by (simp add: newestFirst_def sorted_wrt_filter)




















end
